theory Spec2Isabelle
  imports Complex_Main
begin

section \<open>Documents, requests and replies\<close>

text \<open>
  The handlers of \<^verbatim>\<open>applicationController.js\<close>, \<^verbatim>\<open>bookingController.js\<close> and
  \<^verbatim>\<open>conversationController.js\<close> read and write Mongoose documents. An ObjectId is a
  natural number below \<open>16 ^ 24\<close>, a \<^verbatim>\<open>Date\<close> a number of milliseconds, a finite JavaScript
  \<^verbatim>\<open>Number\<close> the real it denotes, and a string-valued enum field a string that the
  schema's \<^verbatim>\<open>enum\<close> validator checks when the document is written. The product of two
  Numbers, which the runtime rounds to a double, is not real multiplication: the one
  handler that multiplies takes the runtime's product as a parameter. A \<open>char\<close> stands
  for one code unit of a JavaScript string. An optional request field is an option:
  \<open>None\<close> is \<^verbatim>\<open>undefined\<close>. A record has the fields of its schema that the handlers
  below read or write; a Mission's title, description, category and budget are never
  touched by them, and a stored Mission is taken to satisfy its schema, so that
  writing it back with a new status succeeds.
\<close>

type_synonym oid = nat
type_synonym date = nat

record user =
  u_id :: oid
  u_role :: string

record mission =
  m_id :: oid
  m_clientId :: oid
  m_status :: string

record application =
  a_id :: oid
  a_missionId :: oid
  a_studentId :: oid
  a_coverLetter :: string
  a_status :: string
  a_acceptedAt :: "date option"
  a_rejectedAt :: "date option"
  a_rejectionReason :: "string option"

record booking =
  b_id :: oid
  b_clientId :: oid
  b_studentId :: oid
  b_date :: date
  b_hours :: real
  b_description :: string
  b_hourlyRate :: real
  b_totalAmount :: real
  b_status :: string
  b_confirmedAt :: "date option"
  b_completedAt :: "date option"
  b_cancelledAt :: "date option"
  b_cancellationReason :: "string option"

record conversation =
  c_id :: oid
  c_clientId :: oid
  c_studentId :: oid
  c_missionId :: "oid option"
  c_lastMessageAt :: date
  c_lastMessage :: string

text \<open>
  The database: one list per collection, in insertion order, and the next ObjectId
  the driver hands out.
\<close>

record db =
  users :: "user list"
  missions :: "mission list"
  applications :: "application list"
  bookings :: "booking list"
  conversations :: "conversation list"
  next_oid :: oid

text \<open>\<^verbatim>\<open>req.user\<close>, as the authentication middleware leaves it.\<close>

record caller =
  uid :: oid
  role :: string

text \<open>
  A handler either answers with \<^verbatim>\<open>res.status(code).json({success: false, message})\<close>
  or lets an exception of a store call escape to the error middleware.
\<close>

datatype exn = ValidationError | TypeError | DuplicateKey | CastError

datatype failure = Reply nat string | Thrown exn

subsection \<open>JavaScript helpers\<close>

definition is_space :: "char \<Rightarrow> bool" where
  "is_space c = (c \<in> set [CHR '' '', CHR 0x09, CHR 0x0A, CHR 0x0B, CHR 0x0C, CHR 0x0D, CHR 0xA0])"

definition trim :: "string \<Rightarrow> string" where
  "trim s = rev (dropWhile is_space (rev (dropWhile is_space s)))"

text \<open>Truthiness of an optional string: \<^verbatim>\<open>undefined\<close> and \<^verbatim>\<open>''\<close> are falsy.\<close>

definition truthy :: "string option \<Rightarrow> bool" where
  "truthy v = (case v of None \<Rightarrow> False | Some s \<Rightarrow> s \<noteq> [])"

text \<open>Truthiness of an optional number: \<^verbatim>\<open>undefined\<close> and \<^verbatim>\<open>0\<close> are falsy.\<close>

definition truthy_num :: "real option \<Rightarrow> bool" where
  "truthy_num v = (case v of None \<Rightarrow> False | Some x \<Rightarrow> x \<noteq> 0)"

text \<open>
  \<^verbatim>\<open>new Date(ms)\<close> on a number of milliseconds: beyond 8.64e15 it is an Invalid Date,
  here \<open>None\<close>.
\<close>

definition new_Date :: "nat \<Rightarrow> date option" where
  "new_Date ms = (if ms \<le> 8640000000000000 then Some ms else None)"

subsection \<open>ObjectIds as strings\<close>

text \<open>
  \<^verbatim>\<open>ObjectId.toString()\<close> writes the twelve bytes as 24 hexadecimal digits in lower
  case; this is the form of \<^verbatim>\<open>req.user.id\<close>. Mongoose casts a string of a request to
  an ObjectId when a query or a document needs one: 24 hexadecimal digits in either
  case are accepted, and any other string is a cast error.
\<close>

definition hex_digit :: "nat \<Rightarrow> char" where
  "hex_digit n = ''0123456789abcdef'' ! n"

definition digit_value :: "char \<rightharpoonup> nat" where
  "digit_value = map_of
     [(CHR ''0'', 0), (CHR ''1'', 1), (CHR ''2'', 2), (CHR ''3'', 3), (CHR ''4'', 4),
      (CHR ''5'', 5), (CHR ''6'', 6), (CHR ''7'', 7), (CHR ''8'', 8), (CHR ''9'', 9),
      (CHR ''a'', 10), (CHR ''b'', 11), (CHR ''c'', 12), (CHR ''d'', 13), (CHR ''e'', 14),
      (CHR ''f'', 15),
      (CHR ''A'', 10), (CHR ''B'', 11), (CHR ''C'', 12), (CHR ''D'', 13), (CHR ''E'', 14),
      (CHR ''F'', 15)]"

fun to_hex :: "nat \<Rightarrow> nat \<Rightarrow> string" where
  "to_hex 0 k = []"
| "to_hex (Suc n) k = to_hex n (k div 16) @ [hex_digit (k mod 16)]"

fun from_hex :: "nat \<Rightarrow> string \<Rightarrow> nat option" where
  "from_hex acc [] = Some acc"
| "from_hex acc (c # cs) =
     (case digit_value c of None \<Rightarrow> None | Some v \<Rightarrow> from_hex (16 * acc + v) cs)"

definition ObjectId_toString :: "oid \<Rightarrow> string" where
  "ObjectId_toString k = to_hex 24 k"

definition castObjectId :: "string \<Rightarrow> oid option" where
  "castObjectId s = (if length s = 24 then from_hex 0 s else None)"

subsection \<open>The store\<close>

text \<open>\<^verbatim>\<open>doc.save()\<close> writes the document back over the stored one with its \<^verbatim>\<open>_id\<close>.\<close>

fun save_by :: "('a \<Rightarrow> oid) \<Rightarrow> 'a \<Rightarrow> 'a list \<Rightarrow> 'a list" where
  "save_by idf doc [] = []"
| "save_by idf doc (x # xs) = (if idf x = idf doc then doc # xs else x # save_by idf doc xs)"

definition User_findById :: "oid \<Rightarrow> db \<Rightarrow> user option" where
  "User_findById i d = find (\<lambda>u. u_id u = i) (users d)"

definition Mission_findById :: "oid \<Rightarrow> db \<Rightarrow> mission option" where
  "Mission_findById i d = find (\<lambda>m. m_id m = i) (missions d)"

definition Mission_save :: "mission \<Rightarrow> db \<Rightarrow> db" where
  "Mission_save m d = d\<lparr>missions := save_by m_id m (missions d)\<rparr>"

definition Application_findById :: "oid \<Rightarrow> db \<Rightarrow> application option" where
  "Application_findById i d = find (\<lambda>a. a_id a = i) (applications d)"

definition Application_findOne :: "oid \<Rightarrow> oid \<Rightarrow> db \<Rightarrow> application option" where
  "Application_findOne mid sid d =
     find (\<lambda>a. a_missionId a = mid \<and> a_studentId a = sid) (applications d)"

text \<open>
  The validators of \<^verbatim>\<open>applicationSchema\<close>: \<^verbatim>\<open>status\<close> is one of the enum's values and
  \<^verbatim>\<open>coverLetter\<close> has \<^verbatim>\<open>maxlength: 2000\<close>.
\<close>

definition application_valid :: "application \<Rightarrow> bool" where
  "application_valid a =
     (a_status a \<in> set [''pending'', ''accepted'', ''rejected''] \<and> length (a_coverLetter a) \<le> 2000)"

text \<open>
  \<^verbatim>\<open>Application.create\<close>: validation, then the insert, which the unique index
  \<^verbatim>\<open>{ missionId: 1, studentId: 1 }\<close> refuses for a pair that is already stored.
\<close>

definition Application_create ::
  "oid \<Rightarrow> oid \<Rightarrow> string \<Rightarrow> string \<Rightarrow> db \<Rightarrow> exn + (application \<times> db)" where
  "Application_create mid sid cl st d =
     (let a = \<lparr>a_id = next_oid d, a_missionId = mid, a_studentId = sid, a_coverLetter = cl,
                a_status = st, a_acceptedAt = None, a_rejectedAt = None,
                a_rejectionReason = None\<rparr>
      in if \<not> application_valid a then Inl ValidationError
         else if \<exists>x \<in> set (applications d). a_missionId x = mid \<and> a_studentId x = sid
         then Inl DuplicateKey
         else Inr (a, d\<lparr>applications := applications d @ [a], next_oid := Suc (next_oid d)\<rparr>))"

text \<open>\<^verbatim>\<open>application.save()\<close> validates the document and writes it back.\<close>

definition Application_save :: "application \<Rightarrow> db \<Rightarrow> exn + db" where
  "Application_save a d =
     (if \<not> application_valid a then Inl ValidationError
      else Inr (d\<lparr>applications := save_by a_id a (applications d)\<rparr>))"

section \<open>applicationController.js\<close>

text \<open>
  Each handler takes \<^verbatim>\<open>req.user\<close>, the request's parameters, the time of
  \<^verbatim>\<open>new Date()\<close> where it stamps one, and the database, and returns its reply with the
  database it leaves: \<open>Inr\<close> the document of a success reply, \<open>Inl\<close> a failure. The \<^verbatim>\<open>populate\<close> calls after the last
  write only shape the reply and are left out; \<^verbatim>\<open>populate('missionId')\<close> before the
  first use of \<^verbatim>\<open>application.missionId._id\<close> is kept, since a reference to a deleted
  mission populates to \<^verbatim>\<open>null\<close> and the property access throws.
\<close>

definition createApplication ::
  "caller \<Rightarrow> oid option \<Rightarrow> string option \<Rightarrow> db \<Rightarrow> (failure + application) \<times> db" where
  "createApplication u mission_id cover_letter d =
     (if role u \<noteq> ''student''
      then (Inl (Reply 403 ''Only students can create applications''), d)
      else case mission_id of
        None \<Rightarrow> (Inl (Reply 400 ''Mission ID is required''), d)
      | Some mid \<Rightarrow>
         (case Mission_findById mid d of
            None \<Rightarrow> (Inl (Reply 404 ''Mission not found''), d)
          | Some mission \<Rightarrow>
             if m_status mission \<noteq> ''open''
             then (Inl (Reply 400 ''Mission is not open for applications''), d)
             else (case Application_findOne mid (uid u) d of
                     Some existingApplication \<Rightarrow>
                       (Inl (Reply 400 ''You have already applied to this mission''), d)
                   | None \<Rightarrow>
                      (case Application_create mid (uid u)
                              (case cover_letter of None \<Rightarrow> [] | Some s \<Rightarrow> trim s)
                              ''pending'' d of
                         Inl e \<Rightarrow> (Inl (Thrown e), d)
                       | Inr (application, d') \<Rightarrow> (Inr application, d')))))"

definition updateApplication ::
  "caller \<Rightarrow> oid \<Rightarrow> string option \<Rightarrow> string option \<Rightarrow> date \<Rightarrow> db
     \<Rightarrow> (failure + application) \<times> db" where
  "updateApplication u i status cover_letter now d =
     (case Application_findById i d of
        None \<Rightarrow> (Inl (Reply 404 ''Application not found''), d)
      | Some application \<Rightarrow>
         (case Mission_findById (a_missionId application) d of
            None \<Rightarrow> (Inl (Thrown TypeError), d)
          | Some populated \<Rightarrow>
             (let mission = Mission_findById (m_id populated) d;
                  isOwner = (case mission of None \<Rightarrow> False | Some m \<Rightarrow> m_clientId m = uid u);
                  isApplicant = (a_studentId application = uid u);
                  app1 = (case cover_letter of
                            Some s \<Rightarrow> if isApplicant then application\<lparr>a_coverLetter := trim s\<rparr>
                                      else application
                          | None \<Rightarrow> application)
              in case (if truthy status then status else None) of
                   None \<Rightarrow>
                     (case Application_save app1 d of
                        Inl e \<Rightarrow> (Inl (Thrown e), d)
                      | Inr d' \<Rightarrow> (Inr app1, d'))
                 | Some s \<Rightarrow>
                     if s = ''accepted'' \<and> \<not> isOwner
                     then (Inl (Reply 403 ''Only mission owner can accept applications''), d)
                     else if s = ''rejected'' \<and> \<not> isOwner
                     then (Inl (Reply 403 ''Only mission owner can reject applications''), d)
                     else
                       (let app2 = app1\<lparr>a_status := s\<rparr>;
                            app3 = (if s = ''accepted'' then app2\<lparr>a_acceptedAt := Some now\<rparr>
                                    else if s = ''rejected'' then app2\<lparr>a_rejectedAt := Some now\<rparr>
                                    else app2);
                            d1 = (if s = ''accepted''
                                  then (case mission of
                                          Some m \<Rightarrow> Mission_save (m\<lparr>m_status := ''in_discussion''\<rparr>) d
                                        | None \<Rightarrow> d)
                                  else d)
                        in case Application_save app3 d1 of
                             Inl e \<Rightarrow> (Inl (Thrown e), d1)
                           | Inr d' \<Rightarrow> (Inr app3, d')))))"

definition acceptApplication ::
  "caller \<Rightarrow> oid \<Rightarrow> date \<Rightarrow> db \<Rightarrow> (failure + application) \<times> db" where
  "acceptApplication u i now d =
     (case Application_findById i d of
        None \<Rightarrow> (Inl (Reply 404 ''Application not found''), d)
      | Some application \<Rightarrow>
         (case Mission_findById (a_missionId application) d of
            None \<Rightarrow> (Inl (Thrown TypeError), d)
          | Some populated \<Rightarrow>
             (case Mission_findById (m_id populated) d of
                None \<Rightarrow> (Inl (Reply 404 ''Mission not found''), d)
              | Some mission \<Rightarrow>
                 if m_clientId mission \<noteq> uid u
                 then (Inl (Reply 403 ''Only mission owner can accept applications''), d)
                 else
                   (let app1 = application\<lparr>a_status := ''accepted'', a_acceptedAt := Some now\<rparr>
                    in case Application_save app1 d of
                         Inl e \<Rightarrow> (Inl (Thrown e), d)
                       | Inr d1 \<Rightarrow>
                           (Inr app1, Mission_save (mission\<lparr>m_status := ''in_discussion''\<rparr>) d1)))))"

definition rejectApplication ::
  "caller \<Rightarrow> oid \<Rightarrow> string option \<Rightarrow> date \<Rightarrow> db \<Rightarrow> (failure + application) \<times> db" where
  "rejectApplication u i rejection_reason now d =
     (case Application_findById i d of
        None \<Rightarrow> (Inl (Reply 404 ''Application not found''), d)
      | Some application \<Rightarrow>
         (case Mission_findById (a_missionId application) d of
            None \<Rightarrow> (Inl (Thrown TypeError), d)
          | Some populated \<Rightarrow>
             (case Mission_findById (m_id populated) d of
                None \<Rightarrow> (Inl (Reply 404 ''Mission not found''), d)
              | Some mission \<Rightarrow>
                 if m_clientId mission \<noteq> uid u
                 then (Inl (Reply 403 ''Only mission owner can reject applications''), d)
                 else
                   (let app1 = application\<lparr>a_status := ''rejected'', a_rejectedAt := Some now\<rparr>;
                        app2 = (case (if truthy rejection_reason then rejection_reason else None) of
                                  Some r \<Rightarrow> app1\<lparr>a_rejectionReason := Some (trim r)\<rparr>
                                | None \<Rightarrow> app1)
                    in case Application_save app2 d of
                         Inl e \<Rightarrow> (Inl (Thrown e), d)
                       | Inr d1 \<Rightarrow> (Inr app2, d1)))))"

section \<open>bookingController.js\<close>

definition Booking_findById :: "oid \<Rightarrow> db \<Rightarrow> booking option" where
  "Booking_findById i d = find (\<lambda>b. b_id b = i) (bookings d)"

text \<open>
  The validators of \<^verbatim>\<open>bookingSchema\<close>: the \<^verbatim>\<open>status\<close> enum, \<^verbatim>\<open>hours\<close> at least 1,
  \<^verbatim>\<open>hourlyRate\<close> and \<^verbatim>\<open>totalAmount\<close> at least 0, and a required (so non-empty)
  \<^verbatim>\<open>description\<close>.
\<close>

definition booking_valid :: "booking \<Rightarrow> bool" where
  "booking_valid b =
     (b_status b \<in> set [''pending'', ''confirmed'', ''completed'', ''cancelled'']
      \<and> 1 \<le> b_hours b \<and> 0 \<le> b_hourlyRate b \<and> 0 \<le> b_totalAmount b
      \<and> b_description b \<noteq> [])"

text \<open>
  \<^verbatim>\<open>Booking.create\<close>, given the two identifiers as the handler has them, as strings,
  and the \<^verbatim>\<open>Date\<close> it built. The schema casts the identifiers, refuses an Invalid
  Date, and trims \<^verbatim>\<open>description\<close> before it validates; a failed cast is reported as
  a validation error.
\<close>

definition Booking_create ::
  "string \<Rightarrow> string \<Rightarrow> date option \<Rightarrow> real \<Rightarrow> string \<Rightarrow> real \<Rightarrow> real \<Rightarrow> string \<Rightarrow> db
     \<Rightarrow> exn + (booking \<times> db)" where
  "Booking_create clientId studentId dt h desc rate amount st d =
     (case castObjectId clientId of
        None \<Rightarrow> Inl ValidationError
      | Some cid \<Rightarrow>
         (case castObjectId studentId of
            None \<Rightarrow> Inl ValidationError
          | Some sid \<Rightarrow>
             (case dt of
                None \<Rightarrow> Inl ValidationError
              | Some t \<Rightarrow>
                 (let b = \<lparr>b_id = next_oid d, b_clientId = cid, b_studentId = sid, b_date = t,
                            b_hours = h, b_description = trim desc, b_hourlyRate = rate,
                            b_totalAmount = amount, b_status = st, b_confirmedAt = None,
                            b_completedAt = None, b_cancelledAt = None,
                            b_cancellationReason = None\<rparr>
                  in if \<not> booking_valid b then Inl ValidationError
                     else Inr (b, d\<lparr>bookings := bookings d @ [b],
                                      next_oid := Suc (next_oid d)\<rparr>)))))"

definition Booking_save :: "booking \<Rightarrow> db \<Rightarrow> exn + db" where
  "Booking_save b d =
     (if \<not> booking_valid b then Inl ValidationError
      else Inr (d\<lparr>bookings := save_by b_id b (bookings d)\<rparr>))"

text \<open>
  \<^verbatim>\<open>createBooking\<close>. \<open>js_times\<close> is the runtime's product of two Numbers. The
  \<^verbatim>\<open>studentId\<close> of the body is the string the client sent: \<^verbatim>\<open>User.findById\<close> and
  \<^verbatim>\<open>Booking.create\<close> cast it, and \<^verbatim>\<open>clientId === studentId\<close> compares it, as it is,
  with the string \<^verbatim>\<open>req.user.id\<close>. The fields are read with \<open>the\<close> only after the
  first check has found every one of them present.
\<close>

definition createBooking ::
  "(real \<Rightarrow> real \<Rightarrow> real) \<Rightarrow> caller \<Rightarrow> string option \<Rightarrow> nat option \<Rightarrow> real option
     \<Rightarrow> string option \<Rightarrow> real option \<Rightarrow> db \<Rightarrow> (failure + booking) \<times> db" where
  "createBooking js_times u studentId date hours description hourlyRate d =
     (let clientId = ObjectId_toString (uid u)
      in if \<not> truthy studentId \<or> date = None \<or> date = Some 0 \<or> \<not> truthy_num hours
            \<or> \<not> truthy description \<or> \<not> truthy_num hourlyRate
         then (Inl (Reply 400
           ''Please provide all required fields: studentId, date, hours, description, hourlyRate''), d)
         else
           (case castObjectId (the studentId) of
              None \<Rightarrow> (Inl (Thrown CastError), d)
            | Some sid \<Rightarrow>
               (case User_findById sid d of
                  None \<Rightarrow> (Inl (Reply 404 ''Student not found''), d)
                | Some student \<Rightarrow>
                   if u_role student \<noteq> ''student''
                   then (Inl (Reply 404 ''Student not found''), d)
                   else if clientId = the studentId
                   then (Inl (Reply 400 ''You cannot book yourself''), d)
                   else
                     (let totalAmount = js_times (the hourlyRate) (the hours)
                      in case Booking_create clientId (the studentId) (new_Date (the date))
                                (the hours) (the description) (the hourlyRate) totalAmount
                                ''pending'' d of
                           Inl e \<Rightarrow> (Inl (Thrown e), d)
                         | Inr (booking, d') \<Rightarrow> (Inr booking, d')))))"

text \<open>The object literal \<^verbatim>\<open>validTransitions\<close> of \<^verbatim>\<open>updateBooking\<close>.\<close>

definition validTransitions :: "string \<rightharpoonup> string list" where
  "validTransitions =
     [''pending'' \<mapsto> [''confirmed'', ''cancelled''],
      ''confirmed'' \<mapsto> [''completed'', ''cancelled''],
      ''completed'' \<mapsto> [],
      ''cancelled'' \<mapsto> []]"

definition updateBooking ::
  "caller \<Rightarrow> oid \<Rightarrow> string option \<Rightarrow> string option \<Rightarrow> date \<Rightarrow> db
     \<Rightarrow> (failure + booking) \<times> db" where
  "updateBooking u i status cancellationReason now d =
     (case Booking_findById i d of
        None \<Rightarrow> (Inl (Reply 404 ''Booking not found''), d)
      | Some booking \<Rightarrow>
         (let isClient = (b_clientId booking = uid u);
              isStudent = (b_studentId booking = uid u)
          in if \<not> isClient \<and> \<not> isStudent
             then (Inl (Reply 403 ''Not authorized to update this booking''), d)
             else case (if truthy status then status else None) of
               None \<Rightarrow>
                 (case Booking_save booking d of
                    Inl e \<Rightarrow> (Inl (Thrown e), d)
                  | Inr d' \<Rightarrow> (Inr booking, d'))
             | Some s \<Rightarrow>
                 if \<not> (case validTransitions (b_status booking) of
                          None \<Rightarrow> False
                        | Some allowed \<Rightarrow> s \<in> set allowed)
                 then (Inl (Reply 400
                   (''Cannot change status from '' @ b_status booking @ '' to '' @ s)), d)
                 else if s = ''confirmed'' \<and> \<not> isStudent
                 then (Inl (Reply 403 ''Only the student can confirm a booking''), d)
                 else
                   (let b1 = booking\<lparr>b_status := s\<rparr>;
                        b2 = (if s = ''confirmed'' then b1\<lparr>b_confirmedAt := Some now\<rparr>
                              else if s = ''completed'' then b1\<lparr>b_completedAt := Some now\<rparr>
                              else if s = ''cancelled''
                              then (case (if truthy cancellationReason then cancellationReason
                                          else None) of
                                      Some r \<Rightarrow> b1\<lparr>b_cancelledAt := Some now,
                                                   b_cancellationReason := Some (trim r)\<rparr>
                                    | None \<Rightarrow> b1\<lparr>b_cancelledAt := Some now\<rparr>)
                              else b1)
                    in case Booking_save b2 d of
                         Inl e \<Rightarrow> (Inl (Thrown e), d)
                       | Inr d' \<Rightarrow> (Inr b2, d'))))"

section \<open>conversationController.js\<close>

text \<open>The body of \<^verbatim>\<open>POST /api/conversations\<close>, in camelCase and snake_case.\<close>

record conversation_body =
  studentId :: "oid option"
  student_id :: "oid option"
  clientId :: "oid option"
  client_id :: "oid option"
  missionId :: "oid option"
  mission_id :: "oid option"

text \<open>\<^verbatim>\<open>a || b\<close> on optional identifiers.\<close>

definition or_else :: "'a option \<Rightarrow> 'a option \<Rightarrow> 'a option" where
  "or_else a b = (case a of Some x \<Rightarrow> Some x | None \<Rightarrow> b)"

definition Conversation_findOne :: "oid \<Rightarrow> oid \<Rightarrow> oid option \<Rightarrow> db \<Rightarrow> conversation option" where
  "Conversation_findOne cid sid mid d =
     find (\<lambda>c. c_clientId c = cid \<and> c_studentId c = sid \<and> c_missionId c = mid) (conversations d)"

text \<open>
  \<^verbatim>\<open>Conversation.create\<close>, with the schema's defaults and its unique index
  \<^verbatim>\<open>{ clientId: 1, studentId: 1, missionId: 1 }\<close>.
\<close>

definition Conversation_create ::
  "oid \<Rightarrow> oid \<Rightarrow> oid option \<Rightarrow> date \<Rightarrow> db \<Rightarrow> exn + (conversation \<times> db)" where
  "Conversation_create cid sid mid now d =
     (let c = \<lparr>c_id = next_oid d, c_clientId = cid, c_studentId = sid, c_missionId = mid,
                c_lastMessageAt = now, c_lastMessage = []\<rparr>
      in if \<exists>x \<in> set (conversations d).
              c_clientId x = cid \<and> c_studentId x = sid \<and> c_missionId x = mid
         then Inl DuplicateKey
         else Inr (c, d\<lparr>conversations := conversations d @ [c], next_oid := Suc (next_oid d)\<rparr>))"

text \<open>
  The first part of \<^verbatim>\<open>createOrGetConversation\<close>: who is the client and who the
  student, from the caller's role (\<^verbatim>\<open>resolvedClientId\<close>, \<^verbatim>\<open>resolvedStudentId\<close>).
\<close>

definition resolveIds :: "caller \<Rightarrow> conversation_body \<Rightarrow> failure + (oid \<times> oid)" where
  "resolveIds u body =
     (let finalStudentId = or_else (studentId body) (student_id body);
          finalClientId = or_else (clientId body) (client_id body)
      in if role u = ''student''
         then (case finalClientId of
                 None \<Rightarrow> Inl (Reply 400
                   ''Client ID is required when creating conversation as student'')
               | Some c \<Rightarrow> Inr (c, uid u))
         else (case finalStudentId of
                 None \<Rightarrow> Inl (Reply 400
                   ''Student ID is required when creating conversation as client'')
               | Some s \<Rightarrow> Inr (uid u, s)))"

definition createOrGetConversation ::
  "caller \<Rightarrow> conversation_body \<Rightarrow> date \<Rightarrow> db \<Rightarrow> (failure + conversation) \<times> db" where
  "createOrGetConversation u body now d =
     (let finalMissionId = or_else (missionId body) (mission_id body)
      in case resolveIds u body of
           Inl e \<Rightarrow> (Inl e, d)
         | Inr (resolvedClientId, resolvedStudentId) \<Rightarrow>
            (case User_findById resolvedStudentId d of
               None \<Rightarrow> (Inl (Reply 404 ''Student not found''), d)
             | Some student \<Rightarrow>
                if u_role student \<noteq> ''student'' then (Inl (Reply 404 ''Student not found''), d)
                else
                  (case User_findById resolvedClientId d of
                     None \<Rightarrow> (Inl (Reply 404 ''Client not found''), d)
                   | Some client \<Rightarrow>
                      if u_role client \<noteq> ''customer''
                      then (Inl (Reply 404 ''Client not found''), d)
                      else
                        (case Conversation_findOne resolvedClientId resolvedStudentId
                                finalMissionId d of
                           Some conversation \<Rightarrow> (Inr conversation, d)
                         | None \<Rightarrow>
                            (case Conversation_create resolvedClientId resolvedStudentId
                                    finalMissionId now d of
                               Inl e \<Rightarrow> (Inl (Thrown e), d)
                             | Inr (conversation, d') \<Rightarrow> (Inr conversation, d'))))))"

section \<open>Sequences of requests\<close>

text \<open>
  A request to one of the handlers above, or \<open>StoreInsert\<close>: the bare
  \<^verbatim>\<open>Application.create\<close> of a \<^verbatim>\<open>createApplication\<close> whose checks ran against an
  earlier state of the database. \<open>run\<close> serves the requests of a list one after the
  other, each on the database the one before has left; it hands the runtime's product
  of Numbers on to \<^verbatim>\<open>createBooking\<close>.
\<close>

datatype request =
    CreateApplication caller "oid option" "string option"
  | UpdateApplication caller oid "string option" "string option" date
  | AcceptApplication caller oid date
  | RejectApplication caller oid "string option" date
  | StoreInsert oid oid string
  | CreateBooking caller "string option" "nat option" "real option" "string option" "real option"
  | UpdateBooking caller oid "string option" "string option" date
  | CreateOrGetConversation caller conversation_body date

fun perform :: "(real \<Rightarrow> real \<Rightarrow> real) \<Rightarrow> request \<Rightarrow> db \<Rightarrow> db" where
  "perform js_times (CreateApplication u m cl) d = snd (createApplication u m cl d)"
| "perform js_times (UpdateApplication u i st cl now) d = snd (updateApplication u i st cl now d)"
| "perform js_times (AcceptApplication u i now) d = snd (acceptApplication u i now d)"
| "perform js_times (RejectApplication u i r now) d = snd (rejectApplication u i r now d)"
| "perform js_times (StoreInsert m s cl) d =
     (case Application_create m s cl ''pending'' d of Inl e \<Rightarrow> d | Inr (a, d') \<Rightarrow> d')"
| "perform js_times (CreateBooking u s dt h ds r) d = snd (createBooking js_times u s dt h ds r d)"
| "perform js_times (UpdateBooking u i st cr now) d = snd (updateBooking u i st cr now d)"
| "perform js_times (CreateOrGetConversation u body now) d =
     snd (createOrGetConversation u body now d)"

fun run :: "(real \<Rightarrow> real \<Rightarrow> real) \<Rightarrow> request list \<Rightarrow> db \<Rightarrow> db" where
  "run js_times [] d = d"
| "run js_times (r # rs) d = run js_times rs (perform js_times r d)"

text \<open>At most one stored Application per (missionId, studentId) pair.\<close>

definition unique_applications :: "db \<Rightarrow> bool" where
  "unique_applications d =
     distinct (map (\<lambda>a. (a_missionId a, a_studentId a)) (applications d))"

text \<open>
  The product for the concrete runs below. Their Numbers are small integers, whose
  product a double holds exactly.
\<close>

definition exact_times :: "real \<Rightarrow> real \<Rightarrow> real" where
  "exact_times x y = x * y"

text \<open>
  A small database for concrete runs: a customer (1), two students (2 and 3), and an
  open mission (10) of the customer.
\<close>

definition customer1 :: caller where
  "customer1 = \<lparr>uid = 1, role = ''customer''\<rparr>"

definition student2 :: caller where
  "student2 = \<lparr>uid = 2, role = ''student''\<rparr>"

definition student3 :: caller where
  "student3 = \<lparr>uid = 3, role = ''student''\<rparr>"

definition db_ex :: db where
  "db_ex = \<lparr>users = [\<lparr>u_id = 1, u_role = ''customer''\<rparr>, \<lparr>u_id = 2, u_role = ''student''\<rparr>,
                     \<lparr>u_id = 3, u_role = ''student''\<rparr>],
            missions = [\<lparr>m_id = 10, m_clientId = 1, m_status = ''open''\<rparr>],
            applications = [], bookings = [], conversations = [], next_oid = 100\<rparr>"

text \<open>
  The same database after student 2 has applied to mission 10, with the mission
  already moved on to \<^verbatim>\<open>in_progress\<close>.
\<close>

definition db_applied :: db where
  "db_applied = db_ex\<lparr>
     missions := [\<lparr>m_id = 10, m_clientId = 1, m_status = ''in_progress''\<rparr>],
     applications := [\<lparr>a_id = 100, a_missionId = 10, a_studentId = 2, a_coverLetter = ''hello'',
                       a_status = ''pending'', a_acceptedAt = None, a_rejectedAt = None,
                       a_rejectionReason = None\<rparr>],
     next_oid := 101\<rparr>"

definition app_accepted :: application where
  "app_accepted = \<lparr>a_id = 100, a_missionId = 10, a_studentId = 2, a_coverLetter = ''hello'',
                    a_status = ''accepted'', a_acceptedAt = Some 5, a_rejectedAt = None,
                    a_rejectionReason = None\<rparr>"

definition db_accepted :: db where
  "db_accepted = db_applied\<lparr>
     missions := [\<lparr>m_id = 10, m_clientId = 1, m_status = ''in_discussion''\<rparr>],
     applications := [app_accepted]\<rparr>"

text \<open>
  A pending booking of student 2 by customer 1, the same booking completed, and a
  booking of student 3 by student 2.
\<close>

definition booking100 :: booking where
  "booking100 = \<lparr>b_id = 100, b_clientId = 1, b_studentId = 2, b_date = 7, b_hours = 3,
                  b_description = ''maths'', b_hourlyRate = 20, b_totalAmount = 60,
                  b_status = ''pending'', b_confirmedAt = None, b_completedAt = None,
                  b_cancelledAt = None, b_cancellationReason = None\<rparr>"

definition db_booked :: db where
  "db_booked = db_ex\<lparr>bookings := [booking100], next_oid := 101\<rparr>"


definition db_completed :: db where
  "db_completed = db_ex\<lparr>bookings := [booking100\<lparr>b_status := ''completed''\<rparr>], next_oid := 101\<rparr>"

text \<open>The Application that student 2's first request for mission 10 stores.\<close>

definition app_first :: application where
  "app_first = \<lparr>a_id = 100, a_missionId = 10, a_studentId = 2, a_coverLetter = [],
                 a_status = ''pending'', a_acceptedAt = None, a_rejectedAt = None,
                 a_rejectionReason = None\<rparr>"

text \<open>
  The database with one more student, whose ObjectId 171 is written with letters:
  \<^verbatim>\<open>0000000000000000000000ab\<close>.
\<close>

definition student171 :: caller where
  "student171 = \<lparr>uid = 171, role = ''student''\<rparr>"

definition db_hex :: db where
  "db_hex = db_ex\<lparr>users := users db_ex @ [\<lparr>u_id = 171, u_role = ''student''\<rparr>]\<rparr>"

text \<open>
  Two requests for the same conversation: customer 1 names student 2, and student 2
  names customer 1 in snake_case.
\<close>

definition body_by_client :: conversation_body where
  "body_by_client = \<lparr>studentId = Some 2, student_id = None, clientId = None, client_id = None,
                      missionId = None, mission_id = None\<rparr>"

definition body_by_student :: conversation_body where
  "body_by_student = \<lparr>studentId = None, student_id = None, clientId = None, client_id = Some 1,
                       missionId = None, mission_id = None\<rparr>"

definition conversation100 :: conversation where
  "conversation100 = \<lparr>c_id = 100, c_clientId = 1, c_studentId = 2, c_missionId = None,
                       c_lastMessageAt = 5, c_lastMessage = []\<rparr>"

section \<open>Facts about the store\<close>

lemma find_id_eq: "find (\<lambda>x. idf x = i) xs = Some x \<Longrightarrow> idf x = i"
  by (induction xs) (auto split: if_splits)

lemma find_save_by:
  "find (\<lambda>x. idf x = i) xs = Some x \<Longrightarrow> idf doc = i \<Longrightarrow>
   find (\<lambda>x. idf x = i) (save_by idf doc xs) = Some doc"
  by (induction xs) (auto split: if_splits)

lemma map_save_by:
  "(case find (\<lambda>x. idf x = idf doc) xs of None \<Rightarrow> True | Some x \<Rightarrow> key doc = key x) \<Longrightarrow>
   map key (save_by idf doc xs) = map key xs"
  by (induction xs) (auto split: if_splits)

lemma applications_Mission_save [simp]: "applications (Mission_save m d) = applications d"
  by (simp add: Mission_save_def)

lemma Application_findById_Some:
  "Application_findById i d = Some a \<Longrightarrow> find (\<lambda>x. a_id x = a_id a) (applications d) = Some a"
  unfolding Application_findById_def by (frule find_id_eq) simp

section \<open>Facts about ObjectId strings\<close>





lemma length_to_hex [simp]: "length (to_hex n k) = n"
  by (induction n arbitrary: k) simp_all






lemma toString_171: "ObjectId_toString 171 = ''0000000000000000000000ab''"
  by code_simp




lemma cast_171: "castObjectId ''0000000000000000000000ab'' = Some 171"
  by code_simp

lemma cast_171_upper: "castObjectId ''0000000000000000000000AB'' = Some 171"
  by code_simp

section \<open>One Application per mission and student\<close>

text \<open>The handlers that write an Application back never change its mission or student.\<close>

lemma acceptApplication_keys:
  "map (\<lambda>a. (a_missionId a, a_studentId a)) (applications (snd (acceptApplication u i now d)))
   = map (\<lambda>a. (a_missionId a, a_studentId a)) (applications d)"
  by (simp add: acceptApplication_def Let_def Application_save_def map_save_by
        Application_findById_Some split: option.splits)

lemma rejectApplication_keys:
  "map (\<lambda>a. (a_missionId a, a_studentId a)) (applications (snd (rejectApplication u i r now d)))
   = map (\<lambda>a. (a_missionId a, a_studentId a)) (applications d)"
  by (simp add: rejectApplication_def Let_def Application_save_def map_save_by
        Application_findById_Some split: option.splits)

lemma updateApplication_keys:
  "map (\<lambda>a. (a_missionId a, a_studentId a)) (applications (snd (updateApplication u i st cl now d)))
   = map (\<lambda>a. (a_missionId a, a_studentId a)) (applications d)"
  by (simp add: updateApplication_def Let_def Application_save_def map_save_by
        Application_findById_Some split: option.splits)

lemma Application_create_unique:
  "unique_applications d \<Longrightarrow> Application_create m s cl st d = Inr (a, d') \<Longrightarrow>
   unique_applications d'"
  by (auto simp: Application_create_def unique_applications_def Let_def split: if_splits)

lemma createApplication_unique:
  "unique_applications d \<Longrightarrow> unique_applications (snd (createApplication u m cl d))"
  by (auto simp: createApplication_def split: option.splits sum.splits
      dest: Application_create_unique)

lemma createBooking_applications:
  "applications (snd (createBooking js_times u s dt h ds r d)) = applications d"
  by (simp add: createBooking_def Booking_create_def Let_def split: option.splits)

lemma updateBooking_applications:
  "applications (snd (updateBooking u i st cr now d)) = applications d"
  by (simp add: updateBooking_def Booking_save_def Let_def split: option.splits)

lemma createOrGetConversation_applications:
  "applications (snd (createOrGetConversation u body now d)) = applications d"
  by (simp add: createOrGetConversation_def Conversation_create_def Let_def
      split: option.splits sum.splits prod.splits)

lemma perform_unique:
  "unique_applications d \<Longrightarrow> unique_applications (perform js_times r d)"
proof (cases r)
  case (CreateApplication u m cl)
  then show "unique_applications d \<Longrightarrow> ?thesis" by (simp add: createApplication_unique)
next
  case (UpdateApplication u i st cl now)
  then show "unique_applications d \<Longrightarrow> ?thesis"
    by (simp add: unique_applications_def updateApplication_keys)
next
  case (AcceptApplication u i now)
  then show "unique_applications d \<Longrightarrow> ?thesis"
    by (simp add: unique_applications_def acceptApplication_keys)
next
  case (RejectApplication u i rr now)
  then show "unique_applications d \<Longrightarrow> ?thesis"
    by (simp add: unique_applications_def rejectApplication_keys)
next
  case (StoreInsert m s cl)
  then show "unique_applications d \<Longrightarrow> ?thesis"
    by (auto split: sum.splits dest: Application_create_unique)
next
  case (CreateBooking u s dt h ds rt)
  then show "unique_applications d \<Longrightarrow> ?thesis"
    by (simp add: unique_applications_def createBooking_applications)
next
  case (UpdateBooking u i st cr now)
  then show "unique_applications d \<Longrightarrow> ?thesis"
    by (simp add: unique_applications_def updateBooking_applications)
next
  case (CreateOrGetConversation u body now)
  then show "unique_applications d \<Longrightarrow> ?thesis"
    by (simp add: unique_applications_def createOrGetConversation_applications)
qed

lemma run_unique: "unique_applications d \<Longrightarrow> unique_applications (run js_times rs d)"
  by (induction rs arbitrary: d) (simp_all add: perform_unique)

lemma createApplication_refuses_second:
  "Application_findOne m (uid u) d \<noteq> None \<Longrightarrow>
   \<exists>e. createApplication u (Some m) cl d = (Inl e, d)"
  by (auto simp: createApplication_def split: option.splits)

lemma Application_create_refuses_second:
  "\<exists>x \<in> set (applications d). a_missionId x = m \<and> a_studentId x = s \<Longrightarrow>
   \<exists>e. Application_create m s cl st d = Inl e"
  by (auto simp: Application_create_def Let_def)

text \<open>
  Claim C1. For any (missionId, studentId) pair at most one Application is stored, and
  that stays so after every request: no handler changes the pair of a stored
  Application; \<^verbatim>\<open>createApplication\<close> answers a request for a pair that has an
  Application with an error and writes nothing; and the unique index makes
  \<^verbatim>\<open>Application.create\<close> itself fail for such a pair, also for a request that got past
  the check against an older state.
\<close>

theorem one_application_per_pair:
  "(unique_applications d \<longrightarrow> unique_applications (run js_times rs d))
   \<and> (Application_findOne m (uid u) d0 \<noteq> None \<longrightarrow>
        (\<exists>e. createApplication u (Some m) cl d0 = (Inl e, d0)))
   \<and> ((\<exists>x \<in> set (applications d1). a_missionId x = m1 \<and> a_studentId x = s1) \<longrightarrow>
        (\<exists>e. Application_create m1 s1 cl1 st1 d1 = Inl e))"
  using run_unique [of d js_times rs] createApplication_refuses_second [of m u d0 cl]
    Application_create_refuses_second [of d1 m1 s1 cl1 st1]
  by blast

theorem one_application_per_pair_witness:
  "unique_applications db_applied
   \<and> unique_applications
       (run exact_times [CreateApplication student3 (Some 10) None, StoreInsert 10 2 ''again'',
             CreateApplication student2 (Some 10) (Some ''again''),
             AcceptApplication customer1 100 5, StoreInsert 10 3 ''first''] db_applied)
   \<and> Application_findOne 10 (uid student2) db_applied \<noteq> None
   \<and> (\<exists>e. createApplication student2 (Some 10) None db_applied = (Inl e, db_applied))
   \<and> (\<exists>x \<in> set (applications db_applied). a_missionId x = 10 \<and> a_studentId x = 2)
   \<and> (\<exists>e. Application_create 10 2 ''again'' ''pending'' db_applied = Inl e)"
proof -
  have 1: "unique_applications db_applied"
    by (simp add: unique_applications_def db_applied_def db_ex_def)
  have 2: "Application_findOne 10 (uid student2) db_applied \<noteq> None"
    by (simp add: Application_findOne_def db_applied_def db_ex_def student2_def)
  have 3: "\<exists>x \<in> set (applications db_applied). a_missionId x = 10 \<and> a_studentId x = 2"
    by (simp add: db_applied_def db_ex_def)
  from one_application_per_pair
         [of db_applied exact_times
             "[CreateApplication student3 (Some 10) None, StoreInsert 10 2 ''again'',
               CreateApplication student2 (Some 10) (Some ''again''),
               AcceptApplication customer1 100 5, StoreInsert 10 3 ''first'']"
             10 student2 db_applied None db_applied 10 2 "''again''" "''pending''"]
       1 2 3
  show ?thesis by blast
qed

section \<open>Accepting an Application\<close>

lemma Mission_findById_Some:
  "Mission_findById i d = Some m \<Longrightarrow> Mission_findById (m_id m) d = Some m"
  unfolding Mission_findById_def by (frule find_id_eq) simp

lemma Mission_findById_id: "Mission_findById i d = Some m \<Longrightarrow> m_id m = i"
  unfolding Mission_findById_def by (rule find_id_eq)

lemma Application_findById_id: "Application_findById i d = Some a \<Longrightarrow> a_id a = i"
  unfolding Application_findById_def by (rule find_id_eq)

lemma Mission_findById_save:
  "Mission_findById i d = Some m \<Longrightarrow> m_id m' = i \<Longrightarrow>
   Mission_findById i (Mission_save m' d) = Some m'"
  by (simp add: Mission_findById_def Mission_save_def find_save_by)

lemma Application_findById_save:
  "Application_findById i d = Some a \<Longrightarrow> a_id a' = i \<Longrightarrow> applications d0 = applications d \<Longrightarrow>
   Application_findById i (d0\<lparr>applications := save_by a_id a' (applications d)\<rparr>) = Some a'"
  by (simp add: Application_findById_def find_save_by)

lemma Application_findById_Mission_save [simp]:
  "Application_findById i (Mission_save m d) = Application_findById i d"
  by (simp add: Application_findById_def)

lemma Mission_findById_applications_update [simp]:
  "Mission_findById i (d\<lparr>applications := xs\<rparr>) = Mission_findById i d"
  by (simp add: Mission_findById_def)

lemma acceptApplication_Inr:
  assumes "acceptApplication u i now d = (Inr a', d')"
  shows "a_status a' = ''accepted'' \<and> Application_findById i d' = Some a'
         \<and> (\<exists>m. Mission_findById (a_missionId a') d' = Some m \<and> m_status m = ''in_discussion'')"
proof -
  from assms obtain a where a: "Application_findById i d = Some a"
    by (cases "Application_findById i d") (simp_all add: acceptApplication_def)
  from assms a obtain p where p: "Mission_findById (a_missionId a) d = Some p"
    by (cases "Mission_findById (a_missionId a) d") (simp_all add: acceptApplication_def)
  have pp: "Mission_findById (m_id p) d = Some p" using p by (rule Mission_findById_Some)
  have pid: "m_id p = a_missionId a" using p by (rule Mission_findById_id)
  have aid: "a_id a = i" using a by (rule Application_findById_id)
  let ?a1 = "a\<lparr>a_status := ''accepted'', a_acceptedAt := Some now\<rparr>"
  let ?d1 = "d\<lparr>applications := save_by a_id ?a1 (applications d)\<rparr>"
  from assms a p pp have r: "a' = ?a1 \<and> d' = Mission_save (p\<lparr>m_status := ''in_discussion''\<rparr>) ?d1"
    by (auto simp: acceptApplication_def Let_def Application_save_def split: if_splits)
  have 1: "Application_findById i ?d1 = Some ?a1"
    using a aid by (simp add: Application_findById_save)
  have 2: "Mission_findById (a_missionId a) (Mission_save (p\<lparr>m_status := ''in_discussion''\<rparr>) ?d1)
           = Some (p\<lparr>m_status := ''in_discussion''\<rparr>)"
    using p pid by (simp add: Mission_findById_save)
  show ?thesis using r 1 2 by simp
qed

lemma updateApplication_accepted_Inr:
  assumes "updateApplication u i (Some ''accepted'') cl now d = (Inr a', d')"
  shows "a_status a' = ''accepted'' \<and> Application_findById i d' = Some a'
         \<and> (\<exists>m. Mission_findById (a_missionId a') d' = Some m \<and> m_status m = ''in_discussion'')"
proof -
  from assms obtain a where a: "Application_findById i d = Some a"
    by (cases "Application_findById i d") (simp_all add: updateApplication_def)
  from assms a obtain p where p: "Mission_findById (a_missionId a) d = Some p"
    by (cases "Mission_findById (a_missionId a) d") (simp_all add: updateApplication_def)
  have pp: "Mission_findById (m_id p) d = Some p" using p by (rule Mission_findById_Some)
  have pid: "m_id p = a_missionId a" using p by (rule Mission_findById_id)
  have aid: "a_id a = i" using a by (rule Application_findById_id)
  let ?m1 = "p\<lparr>m_status := ''in_discussion''\<rparr>"
  let ?d1 = "Mission_save ?m1 d"
  from assms a p pp have r: "a_status a' = ''accepted'' \<and> a_id a' = a_id a
      \<and> a_missionId a' = a_missionId a
      \<and> d' = ?d1\<lparr>applications := save_by a_id a' (applications ?d1)\<rparr>"
    by (simp add: updateApplication_def Let_def Application_save_def truthy_def
        split: if_splits option.splits) auto
  have 1: "Application_findById i (?d1\<lparr>applications := save_by a_id a' (applications ?d1)\<rparr>) = Some a'"
    using a aid r by (simp add: Application_findById_save)
  have 2: "Mission_findById (a_missionId a) ?d1 = Some ?m1"
    using p pid by (simp add: Mission_findById_save)
  show ?thesis using r 1 2 by simp
qed

text \<open>
  Claim C2. Whenever \<^verbatim>\<open>acceptApplication\<close>, or \<^verbatim>\<open>updateApplication\<close> with status
  \<^verbatim>\<open>accepted\<close>, succeeds, the stored Application is accepted and the stored Mission it
  references has status \<^verbatim>\<open>in_discussion\<close>, whatever the Mission's status was before.
\<close>

theorem accepted_sets_mission_in_discussion:
  "(acceptApplication u i now d = (Inr a1, d1) \<longrightarrow>
      a_status a1 = ''accepted'' \<and> Application_findById i d1 = Some a1
      \<and> (\<exists>m. Mission_findById (a_missionId a1) d1 = Some m \<and> m_status m = ''in_discussion''))
   \<and> (updateApplication u i (Some ''accepted'') cl now d = (Inr a2, d2) \<longrightarrow>
      a_status a2 = ''accepted'' \<and> Application_findById i d2 = Some a2
      \<and> (\<exists>m. Mission_findById (a_missionId a2) d2 = Some m \<and> m_status m = ''in_discussion''))"
  using acceptApplication_Inr updateApplication_accepted_Inr by blast

theorem accepted_sets_mission_in_discussion_witness:
  "acceptApplication customer1 100 5 db_applied = (Inr app_accepted, db_accepted)
   \<and> updateApplication customer1 100 (Some ''accepted'') None 5 db_applied
       = (Inr app_accepted, db_accepted)
   \<and> Mission_findById 10 db_applied = Some \<lparr>m_id = 10, m_clientId = 1, m_status = ''in_progress''\<rparr>
   \<and> a_status app_accepted = ''accepted''
   \<and> Application_findById 100 db_accepted = Some app_accepted
   \<and> (\<exists>m. Mission_findById (a_missionId app_accepted) db_accepted = Some m
           \<and> m_status m = ''in_discussion'')"
proof -
  have 1: "acceptApplication customer1 100 5 db_applied = (Inr app_accepted, db_accepted)"
    by (simp add: acceptApplication_def Application_findById_def Mission_findById_def
        Application_save_def application_valid_def Mission_save_def Let_def
        db_applied_def db_ex_def customer1_def app_accepted_def db_accepted_def)
  have 2: "updateApplication customer1 100 (Some ''accepted'') None 5 db_applied
             = (Inr app_accepted, db_accepted)"
    by (simp add: updateApplication_def Application_findById_def Mission_findById_def
        Application_save_def application_valid_def Mission_save_def Let_def truthy_def
        db_applied_def db_ex_def customer1_def app_accepted_def db_accepted_def)
  have 3: "Mission_findById 10 db_applied
             = Some \<lparr>m_id = 10, m_clientId = 1, m_status = ''in_progress''\<rparr>"
    by (simp add: Mission_findById_def db_applied_def db_ex_def)
  from accepted_sets_mission_in_discussion
         [of customer1 100 5 db_applied app_accepted db_accepted None app_accepted db_accepted]
       1 2 3
  show ?thesis by simp
qed

section \<open>Booking transitions\<close>

lemma Booking_findById_id: "Booking_findById i d = Some b \<Longrightarrow> b_id b = i"
  unfolding Booking_findById_def by (rule find_id_eq)

lemma Booking_findById_save:
  "Booking_findById i d = Some b \<Longrightarrow> b_id b' = i \<Longrightarrow>
   Booking_findById i (d\<lparr>bookings := save_by b_id b' (bookings d)\<rparr>) = Some b'"
  by (simp add: Booking_findById_def find_save_by)

text \<open>The lookup in \<^verbatim>\<open>validTransitions\<close> is membership in the table of legal transitions.\<close>

lemma allowed_iff:
  "(case validTransitions cur of None \<Rightarrow> False | Some allowed \<Rightarrow> s \<in> set allowed)
   \<longleftrightarrow> (cur, s) \<in> {(''pending'', ''confirmed''), (''pending'', ''cancelled''),
                     (''confirmed'', ''completed''), (''confirmed'', ''cancelled'')}"
  by (simp add: validTransitions_def)

lemmas updateBooking_table = updateBooking_def [unfolded allowed_iff]

lemma status_change_in_table:
  assumes b: "Booking_findById i d = Some b"
    and b': "Booking_findById i (snd (updateBooking u i st cr now d)) = Some b'"
    and ne: "b_status b' \<noteq> b_status b"
  shows "\<exists>s. st = Some s \<and> b_status b' = s
     \<and> (b_status b, s) \<in> {(''pending'', ''confirmed''), (''pending'', ''cancelled''),
                     (''confirmed'', ''completed''), (''confirmed'', ''cancelled'')}"
proof -
  have i: "b_id b = i" using b by (rule Booking_findById_id)
  show ?thesis
    using b b' ne i
    by (auto simp: updateBooking_table Let_def Booking_save_def truthy_def
        Booking_findById_save split: option.splits if_splits)
qed

lemma outside_table_rejected:
  assumes b: "Booking_findById i d = Some b"
    and s: "s \<noteq> []"
    and out: "(b_status b, s) \<notin> {(''pending'', ''confirmed''), (''pending'', ''cancelled''),
                     (''confirmed'', ''completed''), (''confirmed'', ''cancelled'')}"
  shows "updateBooking u i (Some s) cr now d =
     (Inl (if b_clientId b = uid u \<or> b_studentId b = uid u
           then Reply 400 (''Cannot change status from '' @ b_status b @ '' to '' @ s)
           else Reply 403 ''Not authorized to update this booking''), d)"
  using b s out
  by (simp add: updateBooking_table Let_def truthy_def)

text \<open>
  Claim C3, as the code has it. \<^verbatim>\<open>updateBooking\<close> changes the status of a Booking only
  along a pair of the table pending to confirmed, pending to cancelled, confirmed to
  completed, confirmed to cancelled. A non-empty requested status outside the table
  leaves the database as it was; the reply is 400 \<^verbatim>\<open>Cannot change status from ... to ...\<close>
  when the caller is the Booking's client or student, and 403
  \<^verbatim>\<open>Not authorized to update this booking\<close> for any other caller, whose request is
  turned away before the table is read.
\<close>

theorem booking_transition_whitelist:
  "Booking_findById i d = Some b \<Longrightarrow>
   (Booking_findById i (snd (updateBooking u i st cr now d)) = Some b'
      \<and> b_status b' \<noteq> b_status b \<longrightarrow>
      (\<exists>s. st = Some s \<and> b_status b' = s
         \<and> (b_status b, s) \<in> {(''pending'', ''confirmed''), (''pending'', ''cancelled''),
                     (''confirmed'', ''completed''), (''confirmed'', ''cancelled'')}))
   \<and> (s \<noteq> [] \<and> (b_status b, s) \<notin> {(''pending'', ''confirmed''), (''pending'', ''cancelled''),
                     (''confirmed'', ''completed''), (''confirmed'', ''cancelled'')} \<longrightarrow>
      updateBooking u i (Some s) cr now d =
        (Inl (if b_clientId b = uid u \<or> b_studentId b = uid u
              then Reply 400 (''Cannot change status from '' @ b_status b @ '' to '' @ s)
              else Reply 403 ''Not authorized to update this booking''), d))"
  using status_change_in_table [of i d b u st cr now b'] outside_table_rejected [of i d b s u cr now]
  by blast

theorem booking_transition_whitelist_witness:
  "Booking_findById 100 db_booked = Some booking100
   \<and> Booking_findById 100 (snd (updateBooking student2 100 (Some ''confirmed'') None 9 db_booked))
       = Some (booking100\<lparr>b_status := ''confirmed'', b_confirmedAt := Some 9\<rparr>)
   \<and> (b_status booking100, ''confirmed'') \<in>
        {(''pending'', ''confirmed''), (''pending'', ''cancelled''),
         (''confirmed'', ''completed''), (''confirmed'', ''cancelled'')}
   \<and> (b_status booking100, ''completed'') \<notin>
        {(''pending'', ''confirmed''), (''pending'', ''cancelled''),
         (''confirmed'', ''completed''), (''confirmed'', ''cancelled'')}
   \<and> updateBooking customer1 100 (Some ''completed'') None 9 db_booked =
        (Inl (Reply 400 ''Cannot change status from pending to completed''), db_booked)"
proof -
  have 1: "Booking_findById 100 db_booked = Some booking100"
    by (simp add: Booking_findById_def db_booked_def db_ex_def booking100_def)
  have 2: "Booking_findById 100 (snd (updateBooking student2 100 (Some ''confirmed'') None 9 db_booked))
             = Some (booking100\<lparr>b_status := ''confirmed'', b_confirmedAt := Some 9\<rparr>)"
    by (simp add: updateBooking_table Booking_findById_def Booking_save_def booking_valid_def
        truthy_def Let_def db_booked_def db_ex_def booking100_def student2_def)
  from booking_transition_whitelist
         [OF 1, of student2 "Some ''confirmed''" None 9
            "booking100\<lparr>b_status := ''confirmed'', b_confirmedAt := Some 9\<rparr>"
            "''completed''" ]
       booking_transition_whitelist
         [OF 1, of customer1 "Some ''completed''" None 9 booking100 "''completed''"]
       1 2
  show ?thesis by (simp add: booking100_def customer1_def)
qed

text \<open>
  The claim as the specification states it fails for a caller who is neither party:
  the request to move the completed booking 100 to \<^verbatim>\<open>confirmed\<close> is outside the table,
  and student 3 is answered 403, not 400.
\<close>

theorem invalid_transition_counterexample:
  "Booking_findById 100 db_completed = Some (booking100\<lparr>b_status := ''completed''\<rparr>)
   \<and> (''completed'', ''confirmed'') \<notin>
        {(''pending'', ''confirmed''), (''pending'', ''cancelled''),
         (''confirmed'', ''completed''), (''confirmed'', ''cancelled'')}
   \<and> updateBooking student3 100 (Some ''confirmed'') None 9 db_completed =
        (Inl (Reply 403 ''Not authorized to update this booking''), db_completed)"
  by (simp add: updateBooking_table Booking_findById_def truthy_def Let_def
      db_completed_def db_ex_def booking100_def student3_def)

section \<open>Who may confirm and who may cancel\<close>

lemma non_student_cannot_confirm:
  assumes "Booking_findById i d = Some b" "b_status b = ''pending''" "uid u \<noteq> b_studentId b"
  shows "updateBooking u i (Some ''confirmed'') cr now d =
     (Inl (Reply 403 (if uid u = b_clientId b then ''Only the student can confirm a booking''
                      else ''Not authorized to update this booking'')), d)"
  using assms by (auto simp: updateBooking_table Let_def truthy_def)

lemma student_confirms:
  assumes b: "Booking_findById i d = Some b" and v: "booking_valid b"
    and p: "uid u = b_studentId b" and st: "b_status b = ''pending''"
  shows "updateBooking u i (Some ''confirmed'') cr now d
           = (Inr (b\<lparr>b_status := ''confirmed'', b_confirmedAt := Some now\<rparr>),
              d\<lparr>bookings := save_by b_id (b\<lparr>b_status := ''confirmed'', b_confirmedAt := Some now\<rparr>)
                               (bookings d)\<rparr>)"
proof -
  have "booking_valid (b\<lparr>b_status := ''confirmed'', b_confirmedAt := Some now\<rparr>)"
    using v by (simp add: booking_valid_def)
  then show ?thesis using b p st
    by (simp add: updateBooking_table Let_def truthy_def Booking_save_def)
qed

lemma either_party_cancels:
  assumes b: "Booking_findById i d = Some b" and v: "booking_valid b"
    and p: "uid u = b_clientId b \<or> uid u = b_studentId b"
    and st: "b_status b = ''pending'' \<or> b_status b = ''confirmed''"
  shows "\<exists>b'. updateBooking u i (Some ''cancelled'') cr now d
                 = (Inr b', d\<lparr>bookings := save_by b_id b' (bookings d)\<rparr>)
           \<and> b_status b' = ''cancelled''
           \<and> Booking_findById i (d\<lparr>bookings := save_by b_id b' (bookings d)\<rparr>) = Some b'"
proof -
  have i: "b_id b = i" using b by (rule Booking_findById_id)
  let ?b1 = "b\<lparr>b_status := ''cancelled'', b_cancelledAt := Some now\<rparr>"
  let ?b2 = "case (if truthy cr then cr else None) of
               Some r \<Rightarrow> b\<lparr>b_status := ''cancelled'', b_cancelledAt := Some now,
                            b_cancellationReason := Some (trim r)\<rparr>
             | None \<Rightarrow> ?b1"
  have v2: "booking_valid ?b2" using v by (simp add: booking_valid_def split: option.splits)
  have i2: "b_id ?b2 = i" "b_status ?b2 = ''cancelled''" using i by (simp_all split: option.splits)
  have "updateBooking u i (Some ''cancelled'') cr now d
          = (Inr ?b2, d\<lparr>bookings := save_by b_id ?b2 (bookings d)\<rparr>)"
    using b p st v2
    by (auto simp: updateBooking_table Let_def truthy_def Booking_save_def split: option.splits)
  moreover have "Booking_findById i (d\<lparr>bookings := save_by b_id ?b2 (bookings d)\<rparr>) = Some ?b2"
    using b i2 by (simp add: Booking_findById_save)
  ultimately show ?thesis using i2 by blast
qed

text \<open>
  Claim C7. A request to move a pending Booking to \<^verbatim>\<open>confirmed\<close> from anyone but the
  Booking's student is answered 403 and changes nothing, be the caller the client or
  a stranger; the student's own request succeeds; and the client and the student can
  each cancel a pending or confirmed Booking.
\<close>

theorem only_student_confirms_either_cancels:
  "Booking_findById i d = Some b \<Longrightarrow>
   (b_status b = ''pending'' \<and> uid u \<noteq> b_studentId b \<longrightarrow>
      updateBooking u i (Some ''confirmed'') cr now d =
        (Inl (Reply 403 (if uid u = b_clientId b then ''Only the student can confirm a booking''
                         else ''Not authorized to update this booking'')), d))
   \<and> (booking_valid b \<and> b_status b = ''pending'' \<and> uid u = b_studentId b \<longrightarrow>
      updateBooking u i (Some ''confirmed'') cr now d =
        (Inr (b\<lparr>b_status := ''confirmed'', b_confirmedAt := Some now\<rparr>),
         d\<lparr>bookings := save_by b_id (b\<lparr>b_status := ''confirmed'', b_confirmedAt := Some now\<rparr>)
                          (bookings d)\<rparr>))
   \<and> (booking_valid b \<and> (uid u = b_clientId b \<or> uid u = b_studentId b)
        \<and> (b_status b = ''pending'' \<or> b_status b = ''confirmed'') \<longrightarrow>
      (\<exists>b'. updateBooking u i (Some ''cancelled'') cr now d
                = (Inr b', d\<lparr>bookings := save_by b_id b' (bookings d)\<rparr>)
           \<and> b_status b' = ''cancelled''
           \<and> Booking_findById i (d\<lparr>bookings := save_by b_id b' (bookings d)\<rparr>) = Some b'))"
  using non_student_cannot_confirm [of i d b u cr now] student_confirms [of i d b u cr now]
    either_party_cancels [of i d b u cr now]
  by blast

theorem only_student_confirms_either_cancels_witness:
  "Booking_findById 100 db_booked = Some booking100
   \<and> b_status booking100 = ''pending'' \<and> uid customer1 \<noteq> b_studentId booking100
   \<and> booking_valid booking100 \<and> uid customer1 = b_clientId booking100
   \<and> updateBooking customer1 100 (Some ''confirmed'') None 9 db_booked =
        (Inl (Reply 403 ''Only the student can confirm a booking''), db_booked)
   \<and> (\<exists>b'. updateBooking customer1 100 (Some ''cancelled'') None 9 db_booked
                = (Inr b', db_booked\<lparr>bookings := save_by b_id b' (bookings db_booked)\<rparr>)
           \<and> b_status b' = ''cancelled'')"
proof -
  have 1: "Booking_findById 100 db_booked = Some booking100"
    by (simp add: Booking_findById_def db_booked_def db_ex_def booking100_def)
  have 2: "b_status booking100 = ''pending'' \<and> uid customer1 \<noteq> b_studentId booking100
      \<and> booking_valid booking100 \<and> uid customer1 = b_clientId booking100"
    by (simp add: booking100_def customer1_def booking_valid_def)
  from only_student_confirms_either_cancels [OF 1, of customer1 None 9] 1 2
  show ?thesis by auto
qed

section \<open>The amount of a Booking\<close>





section \<open>Creating an Application\<close>

lemma find_None_key: "find P xs = None \<Longrightarrow> \<not> (\<exists>x \<in> set xs. P x)"
  by (simp add: find_None_iff)

lemma createApplication_succeeds:
  assumes "role u = ''student''" "Mission_findById m d = Some mission" "m_status mission = ''open''"
    "Application_findOne m (uid u) d = None"
    "length (case cl of None \<Rightarrow> [] | Some s \<Rightarrow> trim s) \<le> 2000"
  shows "createApplication u (Some m) cl d =
     (let a = \<lparr>a_id = next_oid d, a_missionId = m, a_studentId = uid u,
                a_coverLetter = (case cl of None \<Rightarrow> [] | Some s \<Rightarrow> trim s),
                a_status = ''pending'', a_acceptedAt = None, a_rejectedAt = None,
                a_rejectionReason = None\<rparr>
      in (Inr a, d\<lparr>applications := applications d @ [a], next_oid := Suc (next_oid d)\<rparr>))"
proof -
  have "\<not> (\<exists>x \<in> set (applications d). a_missionId x = m \<and> a_studentId x = uid u)"
    using assms(4) unfolding Application_findOne_def by (rule find_None_key)
  then show ?thesis using assms
    by (simp add: createApplication_def Application_create_def application_valid_def Let_def)
qed

lemma createApplication_fails:
  assumes "\<not> (role u = ''student''
           \<and> (\<exists>m mission. mid = Some m \<and> Mission_findById m d = Some mission
                 \<and> m_status mission = ''open'' \<and> Application_findOne m (uid u) d = None)
           \<and> length (case cl of None \<Rightarrow> [] | Some s \<Rightarrow> trim s) \<le> 2000)"
  shows "\<exists>e. createApplication u mid cl d = (Inl e, d)"
  using assms
  by (auto simp: createApplication_def Application_create_def application_valid_def Let_def
      split: option.splits)

text \<open>
  Claim C4, as the code has it. \<^verbatim>\<open>createApplication\<close> stores a new pending Application
  exactly when the caller's role is \<^verbatim>\<open>student\<close>, the Mission exists and is open, the
  student has no Application for the Mission yet, and the trimmed cover letter is at
  most 2000 characters long (the schema's \<^verbatim>\<open>maxlength\<close>); in every other case it fails
  and leaves the database as it was.
\<close>

theorem application_created_exactly_when:
  "(role u = ''student'' \<and> Mission_findById m d = Some mission \<and> m_status mission = ''open''
      \<and> Application_findOne m (uid u) d = None
      \<and> length (case cl of None \<Rightarrow> [] | Some s \<Rightarrow> trim s) \<le> 2000 \<longrightarrow>
      (\<exists>a. createApplication u (Some m) cl d =
              (Inr a, d\<lparr>applications := applications d @ [a], next_oid := Suc (next_oid d)\<rparr>)
          \<and> a_status a = ''pending'' \<and> a_missionId a = m \<and> a_studentId a = uid u))
   \<and> (\<not> (role u = ''student''
           \<and> (\<exists>m mission. mid = Some m \<and> Mission_findById m d = Some mission
                 \<and> m_status mission = ''open'' \<and> Application_findOne m (uid u) d = None)
           \<and> length (case cl of None \<Rightarrow> [] | Some s \<Rightarrow> trim s) \<le> 2000) \<longrightarrow>
      (\<exists>e. createApplication u mid cl d = (Inl e, d)))"
proof (intro conjI impI)
  assume "role u = ''student'' \<and> Mission_findById m d = Some mission \<and> m_status mission = ''open''
      \<and> Application_findOne m (uid u) d = None
      \<and> length (case cl of None \<Rightarrow> [] | Some s \<Rightarrow> trim s) \<le> 2000"
  then show "\<exists>a. createApplication u (Some m) cl d =
              (Inr a, d\<lparr>applications := applications d @ [a], next_oid := Suc (next_oid d)\<rparr>)
          \<and> a_status a = ''pending'' \<and> a_missionId a = m \<and> a_studentId a = uid u"
    by (simp add: createApplication_succeeds Let_def)
next
  assume "\<not> (role u = ''student''
           \<and> (\<exists>m mission. mid = Some m \<and> Mission_findById m d = Some mission
                 \<and> m_status mission = ''open'' \<and> Application_findOne m (uid u) d = None)
           \<and> length (case cl of None \<Rightarrow> [] | Some s \<Rightarrow> trim s) \<le> 2000)"
  then show "\<exists>e. createApplication u mid cl d = (Inl e, d)"
    by (rule createApplication_fails)
qed

theorem application_created_exactly_when_witness:
  "role student2 = ''student''
   \<and> Mission_findById 10 db_ex = Some \<lparr>m_id = 10, m_clientId = 1, m_status = ''open''\<rparr>
   \<and> Application_findOne 10 (uid student2) db_ex = None
   \<and> (\<exists>a. createApplication student2 (Some 10) (Some ''hello'') db_ex =
              (Inr a, db_ex\<lparr>applications := applications db_ex @ [a],
                             next_oid := Suc (next_oid db_ex)\<rparr>)
          \<and> a_status a = ''pending'' \<and> a_missionId a = 10 \<and> a_studentId a = uid student2)
   \<and> Application_findOne 10 (uid student2) db_applied \<noteq> None
   \<and> (\<exists>e. createApplication student2 (Some 10) (Some ''hello'') db_applied = (Inl e, db_applied))"
proof -
  have 1: "role student2 = ''student''
      \<and> Mission_findById 10 db_ex = Some \<lparr>m_id = 10, m_clientId = 1, m_status = ''open''\<rparr>
      \<and> m_status \<lparr>m_id = 10, m_clientId = 1, m_status = ''open''\<rparr> = ''open''
      \<and> Application_findOne 10 (uid student2) db_ex = None
      \<and> length (case Some ''hello'' of None \<Rightarrow> [] | Some s \<Rightarrow> trim s) \<le> 2000"
    by (simp add: student2_def db_ex_def Mission_findById_def Application_findOne_def
        trim_def is_space_def)
  have 2: "Application_findOne 10 (uid student2) db_applied \<noteq> None"
    by (simp add: student2_def db_applied_def db_ex_def Application_findOne_def)
  from application_created_exactly_when
         [of student2 10 db_ex "\<lparr>m_id = 10, m_clientId = 1, m_status = ''open''\<rparr>"
             "Some ''hello''" "Some 10"]
       application_created_exactly_when
         [of student2 10 db_applied "\<lparr>m_id = 10, m_clientId = 1, m_status = ''open''\<rparr>"
             "Some ''hello''" "Some 10"]
       1 2
  show ?thesis by auto
qed

text \<open>
  The four conditions of the specification do not suffice: student 2 applies to the
  open mission 10 for the first time, with a cover letter of 2001 characters, and the
  schema's validation refuses the document.
\<close>

theorem application_created_counterexample:
  "role student2 = ''student''
   \<and> Mission_findById 10 db_ex = Some \<lparr>m_id = 10, m_clientId = 1, m_status = ''open''\<rparr>
   \<and> Application_findOne 10 (uid student2) db_ex = None
   \<and> createApplication student2 (Some 10) (Some (replicate 2001 CHR ''a'')) db_ex
       = (Inl (Thrown ValidationError), db_ex)"
  by (simp add: createApplication_def Application_create_def application_valid_def Let_def
      Mission_findById_def Application_findOne_def trim_def is_space_def
      db_ex_def student2_def)

section \<open>Applying twice\<close>

lemma already_applied:
  assumes "Application_findOne m (uid u) d = Some a"
  shows "createApplication u (Some m) cl d =
     (Inl (if role u \<noteq> ''student'' then Reply 403 ''Only students can create applications''
           else case Mission_findById m d of
                  None \<Rightarrow> Reply 404 ''Mission not found''
                | Some mission \<Rightarrow>
                    if m_status mission \<noteq> ''open''
                    then Reply 400 ''Mission is not open for applications''
                    else Reply 400 ''You have already applied to this mission''), d)"
  using assms by (simp add: createApplication_def split: option.splits)

text \<open>
  Claim C6, as the code has it. A request to apply to a mission the caller has already
  applied to always fails and stores nothing. The reply is the duplicate error, 400
  \<^verbatim>\<open>You have already applied to this mission\<close>, when the caller is a student and the
  mission is still there and open; the checks before it answer first otherwise:
  404 \<^verbatim>\<open>Mission not found\<close> for a deleted mission and 400
  \<^verbatim>\<open>Mission is not open for applications\<close> for one that is no longer open.
\<close>

theorem second_application_rejected:
  "Application_findOne m (uid u) d = Some a \<Longrightarrow>
   createApplication u (Some m) cl d =
     (Inl (if role u \<noteq> ''student'' then Reply 403 ''Only students can create applications''
           else case Mission_findById m d of
                  None \<Rightarrow> Reply 404 ''Mission not found''
                | Some mission \<Rightarrow>
                    if m_status mission \<noteq> ''open''
                    then Reply 400 ''Mission is not open for applications''
                    else Reply 400 ''You have already applied to this mission''), d)"
  by (rule already_applied)

theorem second_application_rejected_witness:
  "Application_findOne 10 (uid student2)
       (run exact_times [CreateApplication student2 (Some 10) None] db_ex) = Some app_first
   \<and> createApplication student2 (Some 10) None
       (run exact_times [CreateApplication student2 (Some 10) None] db_ex)
     = (Inl (Reply 400 ''You have already applied to this mission''),
        run exact_times [CreateApplication student2 (Some 10) None] db_ex)"
proof -
  have 0: "run exact_times [CreateApplication student2 (Some 10) None] db_ex
             = db_ex\<lparr>applications := [app_first], next_oid := 101\<rparr>"
    by (simp add: createApplication_def Application_create_def application_valid_def Let_def
        Mission_findById_def Application_findOne_def db_ex_def student2_def app_first_def)
  have 1: "Application_findOne 10 (uid student2)
             (run exact_times [CreateApplication student2 (Some 10) None] db_ex) = Some app_first"
    unfolding 0 by (simp add: Application_findOne_def db_ex_def student2_def app_first_def)
  have 2: "role student2 = ''student''
      \<and> Mission_findById 10 (run exact_times [CreateApplication student2 (Some 10) None] db_ex)
          = Some \<lparr>m_id = 10, m_clientId = 1, m_status = ''open''\<rparr>"
    unfolding 0 by (simp add: Mission_findById_def db_ex_def student2_def)
  from second_application_rejected [OF 1, of None] 1 2
  show ?thesis by simp
qed

text \<open>
  The scenario of the specification: student 2 applies to mission 10, the owner
  accepts, student 2 applies again. The second application is turned away because the
  mission is no longer open, with the reply any applicant to such a mission gets.
\<close>

theorem second_application_counterexample:
  "Application_findOne 10 (uid student2)
       (run exact_times [CreateApplication student2 (Some 10) None, AcceptApplication customer1 100 5] db_ex)
     = Some (app_first\<lparr>a_status := ''accepted'', a_acceptedAt := Some 5\<rparr>)
   \<and> fst (createApplication student2 (Some 10) None
       (run exact_times [CreateApplication student2 (Some 10) None, AcceptApplication customer1 100 5] db_ex))
     = Inl (Reply 400 ''Mission is not open for applications'')"
proof -
  have 0: "run exact_times [CreateApplication student2 (Some 10) None, AcceptApplication customer1 100 5] db_ex
      = db_ex\<lparr>missions := [\<lparr>m_id = 10, m_clientId = 1, m_status = ''in_discussion''\<rparr>],
               applications := [app_first\<lparr>a_status := ''accepted'', a_acceptedAt := Some 5\<rparr>],
               next_oid := 101\<rparr>"
    by (simp add: createApplication_def Application_create_def application_valid_def Let_def
        acceptApplication_def Application_save_def Mission_save_def Application_findById_def
        Mission_findById_def Application_findOne_def
        db_ex_def student2_def customer1_def app_first_def)
  show ?thesis unfolding 0
    by (simp add: createApplication_def Mission_findById_def Application_findOne_def
        db_ex_def student2_def app_first_def)
qed

section \<open>Accepted and rejected Applications\<close>

lemma owner_accepts:
  assumes a: "Application_findById i d = Some a"
    and m: "Mission_findById (a_missionId a) d = Some m"
    and o: "m_clientId m = uid u"
    and v: "length (a_coverLetter a) \<le> 2000"
  shows "fst (acceptApplication u i now d)
           = Inr (a\<lparr>a_status := ''accepted'', a_acceptedAt := Some now\<rparr>)
         \<and> Application_findById i (snd (acceptApplication u i now d))
           = Some (a\<lparr>a_status := ''accepted'', a_acceptedAt := Some now\<rparr>)"
proof -
  have mm: "Mission_findById (m_id m) d = Some m" using m by (rule Mission_findById_Some)
  have aid: "a_id a = i" using a by (rule Application_findById_id)
  let ?a1 = "a\<lparr>a_status := ''accepted'', a_acceptedAt := Some now\<rparr>"
  have "acceptApplication u i now d
          = (Inr ?a1, Mission_save (m\<lparr>m_status := ''in_discussion''\<rparr>)
                        (d\<lparr>applications := save_by a_id ?a1 (applications d)\<rparr>))"
    using a m mm o v
    by (simp add: acceptApplication_def Let_def Application_save_def application_valid_def)
  moreover have "Application_findById i (d\<lparr>applications := save_by a_id ?a1 (applications d)\<rparr>)
                   = Some ?a1"
    using a aid by (simp add: Application_findById_save)
  ultimately show ?thesis by simp
qed

lemma owner_rejects:
  assumes a: "Application_findById i d = Some a"
    and m: "Mission_findById (a_missionId a) d = Some m"
    and o: "m_clientId m = uid u"
    and v: "length (a_coverLetter a) \<le> 2000"
  shows "\<exists>a'. fst (rejectApplication u i rr now d) = Inr a'
           \<and> Application_findById i (snd (rejectApplication u i rr now d)) = Some a'
           \<and> a_status a' = ''rejected''"
proof -
  have mm: "Mission_findById (m_id m) d = Some m" using m by (rule Mission_findById_Some)
  have aid: "a_id a = i" using a by (rule Application_findById_id)
  let ?a2 = "case (if truthy rr then rr else None) of
               Some r \<Rightarrow> a\<lparr>a_status := ''rejected'', a_rejectedAt := Some now,
                            a_rejectionReason := Some (trim r)\<rparr>
             | None \<Rightarrow> a\<lparr>a_status := ''rejected'', a_rejectedAt := Some now\<rparr>"
  have p2: "a_id ?a2 = i" "a_status ?a2 = ''rejected''" "application_valid ?a2"
    using aid v by (simp_all add: application_valid_def split: option.splits)
  have "rejectApplication u i rr now d
          = (Inr ?a2, d\<lparr>applications := save_by a_id ?a2 (applications d)\<rparr>)"
    using a m mm o p2(3)
    by (auto simp: rejectApplication_def Let_def Application_save_def split: option.splits)
  moreover have "Application_findById i (d\<lparr>applications := save_by a_id ?a2 (applications d)\<rparr>)
                   = Some ?a2"
    using a p2(1) by (simp add: Application_findById_save)
  ultimately show ?thesis using p2(2) by simp
qed

lemma not_owner_refused:
  assumes a: "Application_findById i d = Some a"
    and m: "Mission_findById (a_missionId a) d = Some m"
    and o: "m_clientId m \<noteq> uid u"
  shows "acceptApplication u i now d
           = (Inl (Reply 403 ''Only mission owner can accept applications''), d)
       \<and> rejectApplication u i rr now d
           = (Inl (Reply 403 ''Only mission owner can reject applications''), d)
       \<and> updateApplication u i (Some ''accepted'') cl now d
           = (Inl (Reply 403 ''Only mission owner can accept applications''), d)
       \<and> updateApplication u i (Some ''rejected'') cl now d
           = (Inl (Reply 403 ''Only mission owner can reject applications''), d)"
proof -
  have mm: "Mission_findById (m_id m) d = Some m" using m by (rule Mission_findById_Some)
  show ?thesis using a m mm o
    by (simp add: acceptApplication_def rejectApplication_def updateApplication_def Let_def
        truthy_def)
qed

text \<open>
  Claim C5, as the code has it. No handler looks at the current status of an
  Application, so \<^verbatim>\<open>accepted\<close> and \<^verbatim>\<open>rejected\<close> are not terminal. Whatever the current
  status of a stored Application, \<^verbatim>\<open>acceptApplication\<close> by the owner of its Mission
  stores it as accepted and \<^verbatim>\<open>rejectApplication\<close> by the owner stores it as rejected;
  for any other caller \<^verbatim>\<open>acceptApplication\<close>, \<^verbatim>\<open>rejectApplication\<close>, and
  \<^verbatim>\<open>updateApplication\<close> with status \<^verbatim>\<open>accepted\<close> or \<^verbatim>\<open>rejected\<close> are answered 403 and
  change nothing.
\<close>

theorem application_status_owner_only:
  "Application_findById i d = Some a \<Longrightarrow> Mission_findById (a_missionId a) d = Some m \<Longrightarrow>
   (m_clientId m = uid u \<and> length (a_coverLetter a) \<le> 2000 \<longrightarrow>
      fst (acceptApplication u i now d)
        = Inr (a\<lparr>a_status := ''accepted'', a_acceptedAt := Some now\<rparr>)
      \<and> Application_findById i (snd (acceptApplication u i now d))
        = Some (a\<lparr>a_status := ''accepted'', a_acceptedAt := Some now\<rparr>)
      \<and> (\<exists>a'. fst (rejectApplication u i rr now d) = Inr a'
             \<and> Application_findById i (snd (rejectApplication u i rr now d)) = Some a'
             \<and> a_status a' = ''rejected''))
   \<and> (m_clientId m \<noteq> uid u \<longrightarrow>
      acceptApplication u i now d
        = (Inl (Reply 403 ''Only mission owner can accept applications''), d)
      \<and> rejectApplication u i rr now d
        = (Inl (Reply 403 ''Only mission owner can reject applications''), d)
      \<and> updateApplication u i (Some ''accepted'') cl now d
        = (Inl (Reply 403 ''Only mission owner can accept applications''), d)
      \<and> updateApplication u i (Some ''rejected'') cl now d
        = (Inl (Reply 403 ''Only mission owner can reject applications''), d))"
  using owner_accepts [of i d a m u now] owner_rejects [of i d a m u rr now]
    not_owner_refused [of i d a m u now rr cl]
  by blast

theorem application_status_owner_only_witness:
  "Application_findById 100 db_accepted = Some app_accepted
   \<and> Mission_findById (a_missionId app_accepted) db_accepted
       = Some \<lparr>m_id = 10, m_clientId = 1, m_status = ''in_discussion''\<rparr>
   \<and> a_status app_accepted = ''accepted''
   \<and> (\<exists>a'. fst (rejectApplication customer1 100 None 9 db_accepted) = Inr a'
          \<and> Application_findById 100 (snd (rejectApplication customer1 100 None 9 db_accepted))
            = Some a'
          \<and> a_status a' = ''rejected'')
   \<and> rejectApplication student3 100 None 9 db_accepted
       = (Inl (Reply 403 ''Only mission owner can reject applications''), db_accepted)"
proof -
  have 1: "Application_findById 100 db_accepted = Some app_accepted"
    by (simp add: Application_findById_def db_accepted_def db_applied_def db_ex_def
        app_accepted_def)
  have 2: "Mission_findById (a_missionId app_accepted) db_accepted
             = Some \<lparr>m_id = 10, m_clientId = 1, m_status = ''in_discussion''\<rparr>"
    by (simp add: Mission_findById_def db_accepted_def db_applied_def db_ex_def app_accepted_def)
  have 3: "a_status app_accepted = ''accepted'' \<and> length (a_coverLetter app_accepted) \<le> 2000"
    by (simp add: app_accepted_def)
  from application_status_owner_only [OF 1 2, of customer1 9 None None]
       application_status_owner_only [OF 1 2, of student3 9 None None]
       1 2 3
  show ?thesis by (simp add: customer1_def student3_def)
qed

text \<open>
  An accepted Application does change status again: the owner of mission 10 rejects
  the accepted Application 100, and it is stored as rejected.
\<close>

theorem terminal_states_counterexample:
  "Application_findById 100 db_accepted = Some app_accepted
   \<and> a_status app_accepted = ''accepted''
   \<and> fst (rejectApplication customer1 100 None 9 db_accepted)
       = Inr (app_accepted\<lparr>a_status := ''rejected'', a_rejectedAt := Some 9\<rparr>)
   \<and> Application_findById 100 (snd (rejectApplication customer1 100 None 9 db_accepted))
       = Some (app_accepted\<lparr>a_status := ''rejected'', a_rejectedAt := Some 9\<rparr>)"
  by (simp add: rejectApplication_def Application_findById_def Mission_findById_def
      Application_save_def application_valid_def truthy_def Let_def
      db_accepted_def db_applied_def db_ex_def app_accepted_def customer1_def)

section \<open>Asking twice for a conversation\<close>

lemma find_holds: "find P xs = Some x \<Longrightarrow> P x"
  by (simp add: find_Some_iff) blast

lemma find_snoc: "find P xs = None \<Longrightarrow> P c \<Longrightarrow> find P (xs @ [c]) = Some c"
  by (induction xs) (auto split: if_splits)

text \<open>
  After a successful call both users are where they were, the conversation the call
  returned has the client, student and mission the call's arguments resolve to, and it
  is the one a lookup of that triple finds.
\<close>

lemma createOrGetConversation_Inr:
  assumes "createOrGetConversation u body now d = (Inr c, d')"
  shows "users d' = users d
    \<and> (\<exists>student. User_findById (c_studentId c) d = Some student \<and> u_role student = ''student'')
    \<and> (\<exists>client. User_findById (c_clientId c) d = Some client \<and> u_role client = ''customer'')
    \<and> resolveIds u body = Inr (c_clientId c, c_studentId c)
    \<and> c_missionId c = or_else (missionId body) (mission_id body)
    \<and> Conversation_findOne (c_clientId c) (c_studentId c) (c_missionId c) d' = Some c"
proof -
  from assms obtain cid sid where r: "resolveIds u body = Inr (cid, sid)"
    by (cases "resolveIds u body") (auto simp: createOrGetConversation_def Let_def)
  let ?mid = "or_else (missionId body) (mission_id body)"
  from assms r obtain student
    where s: "User_findById sid d = Some student" "u_role student = ''student''"
    by (cases "User_findById sid d")
      (auto simp: createOrGetConversation_def Let_def split: if_splits)
  from assms r s obtain client
    where k: "User_findById cid d = Some client" "u_role client = ''customer''"
    by (cases "User_findById cid d")
      (auto simp: createOrGetConversation_def Let_def split: if_splits)
  show ?thesis
  proof (cases "Conversation_findOne cid sid ?mid d")
    case (Some c0)
    with assms r s k have e: "c = c0" "d' = d"
      by (auto simp: createOrGetConversation_def Let_def)
    from Some have "c_clientId c0 = cid \<and> c_studentId c0 = sid \<and> c_missionId c0 = ?mid"
      unfolding Conversation_findOne_def by (rule find_holds)
    with Some e s k r show ?thesis by simp
  next
    case None
    let ?c = "\<lparr>c_id = next_oid d, c_clientId = cid, c_studentId = sid, c_missionId = ?mid,
                c_lastMessageAt = now, c_lastMessage = []\<rparr>"
    from None have n: "\<not> (\<exists>x \<in> set (conversations d).
              c_clientId x = cid \<and> c_studentId x = sid \<and> c_missionId x = ?mid)"
      unfolding Conversation_findOne_def by (simp add: find_None_iff)
    with assms r s k None have e: "c = ?c"
        "d' = d\<lparr>conversations := conversations d @ [?c], next_oid := Suc (next_oid d)\<rparr>"
      by (auto simp: createOrGetConversation_def Conversation_create_def Let_def)
    have "Conversation_findOne cid sid ?mid
            (d\<lparr>conversations := conversations d @ [?c], next_oid := Suc (next_oid d)\<rparr>) = Some ?c"
      using None by (simp add: Conversation_findOne_def find_snoc)
    with e s k r show ?thesis by simp
  qed
qed

text \<open>
  Claim C8. After a call of \<^verbatim>\<open>createOrGetConversation\<close> has returned a Conversation,
  a call whose arguments resolve to the same client and student and name the same
  mission (or none) as the first call's, from the client or from the student, returns
  that same Conversation (so the same identifier) and leaves the database as it is: no
  second Conversation is created. The Conversation carries the triple the first call
  asked for.
\<close>

theorem conversation_idempotent:
  assumes "createOrGetConversation u1 body1 now1 d = (Inr c, d1)"
    and "resolveIds u2 body2 = resolveIds u1 body1"
    and "or_else (missionId body2) (mission_id body2)
           = or_else (missionId body1) (mission_id body1)"
  shows "createOrGetConversation u2 body2 now2 d1 = (Inr c, d1)
     \<and> resolveIds u1 body1 = Inr (c_clientId c, c_studentId c)
     \<and> c_missionId c = or_else (missionId body1) (mission_id body1)"
proof -
  from createOrGetConversation_Inr [OF assms(1)] obtain student client where
    u: "users d1 = users d"
    and s: "User_findById (c_studentId c) d = Some student" "u_role student = ''student''"
    and k: "User_findById (c_clientId c) d = Some client" "u_role client = ''customer''"
    and r: "resolveIds u1 body1 = Inr (c_clientId c, c_studentId c)"
    and m: "c_missionId c = or_else (missionId body1) (mission_id body1)"
    and f: "Conversation_findOne (c_clientId c) (c_studentId c) (c_missionId c) d1 = Some c"
    by blast
  have s1: "User_findById (c_studentId c) d1 = Some student"
    and k1: "User_findById (c_clientId c) d1 = Some client"
    using s k u by (simp_all add: User_findById_def)
  have "createOrGetConversation u2 body2 now2 d1 = (Inr c, d1)"
    using assms(2,3) r m s1 k1 s(2) k(2) f
    by (simp add: createOrGetConversation_def Let_def)
  with r m show ?thesis by simp
qed

theorem conversation_idempotent_witness:
  "createOrGetConversation customer1 body_by_client 5 db_ex
     = (Inr conversation100, db_ex\<lparr>conversations := [conversation100], next_oid := 101\<rparr>)
   \<and> resolveIds student2 body_by_student = resolveIds customer1 body_by_client
   \<and> or_else (missionId body_by_student) (mission_id body_by_student)
     = or_else (missionId body_by_client) (mission_id body_by_client)
   \<and> createOrGetConversation student2 body_by_student 8
       (db_ex\<lparr>conversations := [conversation100], next_oid := 101\<rparr>)
     = (Inr conversation100, db_ex\<lparr>conversations := [conversation100], next_oid := 101\<rparr>)
   \<and> createOrGetConversation customer1 body_by_client 8
       (db_ex\<lparr>conversations := [conversation100], next_oid := 101\<rparr>)
     = (Inr conversation100, db_ex\<lparr>conversations := [conversation100], next_oid := 101\<rparr>)
   \<and> resolveIds customer1 body_by_client = Inr (1, 2)
   \<and> c_clientId conversation100 = 1 \<and> c_studentId conversation100 = 2
   \<and> c_missionId conversation100 = None"
proof -
  have 1: "createOrGetConversation customer1 body_by_client 5 db_ex
     = (Inr conversation100, db_ex\<lparr>conversations := [conversation100], next_oid := 101\<rparr>)"
    by (simp add: createOrGetConversation_def resolveIds_def or_else_def User_findById_def
        Conversation_findOne_def Conversation_create_def Let_def
        db_ex_def customer1_def body_by_client_def conversation100_def)
  have 2: "resolveIds student2 body_by_student = resolveIds customer1 body_by_client"
    by (simp add: resolveIds_def or_else_def student2_def customer1_def
        body_by_student_def body_by_client_def)
  have 3: "or_else (missionId body_by_student) (mission_id body_by_student)
     = or_else (missionId body_by_client) (mission_id body_by_client)"
    by (simp add: or_else_def body_by_student_def body_by_client_def)
  have 4: "resolveIds customer1 body_by_client = Inr (1, 2)"
    by (simp add: resolveIds_def or_else_def customer1_def body_by_client_def)
  from conversation_idempotent [OF 1 2 3, of 8] conversation_idempotent [OF 1 refl refl, of 8]
       1 2 3 4
  show ?thesis by (simp add: conversation100_def)
qed

section \<open>Booking oneself\<close>






text \<open>
  The comparison \<^verbatim>\<open>clientId === studentId\<close> is one of strings, and the cast that
  \<^verbatim>\<open>User.findById\<close> and \<^verbatim>\<open>Booking.create\<close> apply accepts upper case. Student 171
  names themselves as \<^verbatim>\<open>0000000000000000000000AB\<close>: the check does not fire, and a
  Booking with the same client and student is stored.
\<close>

lemma upper_case_own_id_is_booked:
  "ObjectId_toString (uid student171) = ''0000000000000000000000ab''
   \<and> castObjectId ''0000000000000000000000AB'' = Some (uid student171)
   \<and> createBooking exact_times student171 (Some ''0000000000000000000000AB'') (Some 7) (Some 3)
       (Some ''maths'') (Some 20) db_hex
     = (Inr \<lparr>b_id = 100, b_clientId = 171, b_studentId = 171, b_date = 7, b_hours = 3,
              b_description = ''maths'', b_hourlyRate = 20, b_totalAmount = 60,
              b_status = ''pending'', b_confirmedAt = None, b_completedAt = None,
              b_cancelledAt = None, b_cancellationReason = None\<rparr>,
        db_hex\<lparr>bookings :=
                 [\<lparr>b_id = 100, b_clientId = 171, b_studentId = 171, b_date = 7, b_hours = 3,
                   b_description = ''maths'', b_hourlyRate = 20, b_totalAmount = 60,
                   b_status = ''pending'', b_confirmedAt = None, b_completedAt = None,
                   b_cancelledAt = None, b_cancellationReason = None\<rparr>],
               next_oid := 101\<rparr>)"
  by (simp add: createBooking_def Booking_create_def booking_valid_def User_findById_def
      truthy_def truthy_num_def trim_def is_space_def new_Date_def Let_def exact_times_def
      toString_171 cast_171 cast_171_upper db_hex_def db_ex_def student171_def)

end
